theory Spec2Isabelle
  imports Complex_Main
begin

section \<open>Data model\<close>

text \<open>
  The rows of the tables \<open>radioAssets\<close>, \<open>radioSchedule\<close> and \<open>radioShows\<close>, with the
  fields the server code reads. Timestamps are JavaScript \<open>Date\<close> values: whole
  milliseconds since the epoch, here \<open>int\<close>. \<open>durationSeconds\<close> is an integer column.
\<close>

record RadioAsset =
  asset_id :: string
  title :: string
  artist :: string
  audioUrl :: string
  durationSeconds :: int

record RadioScheduleItem =
  schedule_id :: string
  assetId :: string
  showId :: "string option"
  scheduledStart :: int
  scheduledEnd :: int

record RadioShow =
  show_id :: string
  show_title :: string
  show_hostName :: "string option"

record database =
  radioAssets :: "RadioAsset list"
  radioSchedule :: "RadioScheduleItem list"
  radioShows :: "RadioShow list"

text \<open>
  A JSON object sent by the server (\<open>res.json\<close>, \<open>res.write\<close>) and parsed by the
  client (\<open>data: any\<close>): every property is optional.
\<close>

record payload =
  p_type :: "string option"
  p_isScheduled :: "bool option"
  p_currentAsset :: "RadioAsset option"
  p_streamUrl :: "string option"
  p_startedAt :: "int option"
  p_durationSeconds :: "int option"
  p_positionSeconds :: "int option"
  p_title :: "string option"
  p_artist :: "string option"
  p_showName :: "string option"
  p_hostName :: "string option"
  p_listenerCount :: "int option"
  p_scheduleItem :: "RadioScheduleItem option"
  p_asset :: "RadioAsset option"
  p_scheduleId :: "string option"

definition empty_payload :: payload where
  "empty_payload = \<lparr> p_type = None, p_isScheduled = None, p_currentAsset = None,
     p_streamUrl = None, p_startedAt = None, p_durationSeconds = None,
     p_positionSeconds = None, p_title = None, p_artist = None, p_showName = None,
     p_hostName = None, p_listenerCount = None, p_scheduleItem = None, p_asset = None,
     p_scheduleId = None \<rparr>"

definition DEMO_STREAM_URL :: string where
  "DEMO_STREAM_URL = ''https://stream.zeno.fm/yn65fsaurfhvv''"

section \<open>Storage (DatabaseStorage)\<close>

text \<open>\<open>const [row] = await db.select()...; return row || undefined\<close>\<close>

definition first_row :: "'a list \<Rightarrow> 'a option" where
  "first_row rows = (case rows of [] \<Rightarrow> None | r # _ \<Rightarrow> Some r)"

definition getRadioAssetById :: "database \<Rightarrow> string \<Rightarrow> RadioAsset option" where
  "getRadioAssetById d i = first_row (filter (\<lambda>a. asset_id a = i) (radioAssets d))"

definition getRadioShowById :: "database \<Rightarrow> string \<Rightarrow> RadioShow option" where
  "getRadioShowById d i = first_row (filter (\<lambda>s. show_id s = i) (radioShows d))"

text \<open>
  \<open>where(and(lte(scheduledStart, now), gte(scheduledEnd, now)))\<close>: both comparisons are
  inclusive.
\<close>

definition is_current :: "int \<Rightarrow> RadioScheduleItem \<Rightarrow> bool" where
  "is_current now s = (scheduledStart s \<le> now \<and> scheduledEnd s \<ge> now)"

text \<open>
  \<open>orderBy(desc(scheduledStart)).limit(1)\<close>. Rows with equal \<open>scheduledStart\<close> come in
  an order SQL leaves open; the model keeps table order among them.
\<close>

definition order_by_desc_start :: "RadioScheduleItem list \<Rightarrow> RadioScheduleItem list" where
  "order_by_desc_start rows = sort_key (\<lambda>s. - scheduledStart s) rows"

definition getCurrentScheduledItem :: "database \<Rightarrow> int \<Rightarrow> RadioScheduleItem option" where
  "getCurrentScheduledItem d now =
     first_row (take 1 (order_by_desc_start (filter (is_current now) (radioSchedule d))))"

section \<open>GET /api/radio/metadata\<close>

record demo_track =
  demo_title :: string
  demo_artist :: string
  demo_showName :: string
  demo_hostName :: string

definition demoTracks :: "demo_track list" where
  "demoTracks =
     [\<lparr> demo_title = ''Midnight Drive'', demo_artist = ''Luna Wave'',
        demo_showName = ''Morning Therapy'', demo_hostName = ''DJ Luna'' \<rparr>,
      \<lparr> demo_title = ''Electric Dreams'', demo_artist = ''Neon Pulse'',
        demo_showName = ''Peak Time Sessions'', demo_hostName = ''Neon Pulse'' \<rparr>,
      \<lparr> demo_title = ''Deep Waters'', demo_artist = ''Aqua Dreams'',
        demo_showName = ''Weekend Warm-Up'', demo_hostName = ''Aqua Dreams'' \<rparr>]"

text \<open>
  The asset as the handlers copy it into a message: the five fields
  \<open>id, title, artist, audioUrl, durationSeconds\<close>.
\<close>

definition asset_view :: "RadioAsset \<Rightarrow> RadioAsset" where
  "asset_view a = \<lparr> asset_id = asset_id a, title = title a, artist = artist a,
     audioUrl = audioUrl a, durationSeconds = durationSeconds a \<rparr>"

text \<open>\<open>if (currentSchedule.showId) show = await storage.getRadioShowById(...)\<close>: an empty
  string is falsy.\<close>

definition lookup_show :: "database \<Rightarrow> RadioScheduleItem \<Rightarrow> RadioShow option" where
  "lookup_show d s =
     (case showId s of
        None \<Rightarrow> None
      | Some i \<Rightarrow> (if i = [] then None else getRadioShowById d i))"

text \<open>
  The handler reads the clock twice: \<open>new Date()\<close> inside \<open>getCurrentScheduledItem\<close>
  (\<open>tq\<close>) and \<open>Date.now()\<close> after the asset lookup (\<open>tn\<close>). The two calls of
  \<open>Math.random\<close> are side inputs: \<open>r_track\<close> stands for
  \<open>Math.floor(Math.random() * demoTracks.length)\<close> and \<open>r_count\<close> for
  \<open>Math.floor(Math.random() * 50)\<close>. \<open>Math.floor((now - startedAt) / 1000)\<close> on whole
  milliseconds is the integer quotient rounded down, \<open>div\<close>. The queries of the model
  never throw, so the handler's \<open>catch\<close> (status 500) has no branch here.
\<close>

definition scheduled_metadata ::
  "database \<Rightarrow> RadioScheduleItem \<Rightarrow> RadioAsset \<Rightarrow> int \<Rightarrow> int \<Rightarrow> payload" where
  "scheduled_metadata d currentSchedule asset tn r_count =
     (let startedAt = scheduledStart currentSchedule;
          positionSeconds = (tn - startedAt) div 1000;
          sh = lookup_show d currentSchedule
      in empty_payload \<lparr>
           p_isScheduled := Some True,
           p_currentAsset := Some (asset_view asset),
           p_streamUrl := Some (audioUrl asset),
           p_startedAt := Some (scheduledStart currentSchedule),
           p_durationSeconds := Some (durationSeconds asset),
           p_positionSeconds := Some (min positionSeconds (durationSeconds asset)),
           p_showName := map_option show_title sh,
           p_hostName := Option.bind sh show_hostName,
           p_listenerCount := Some (r_count + 100) \<rparr>)"

definition live_metadata :: "nat \<Rightarrow> int \<Rightarrow> payload" where
  "live_metadata r_track r_count =
     (let randomTrack = demoTracks ! (r_track mod length demoTracks)
      in empty_payload \<lparr>
           p_isScheduled := Some False,
           p_title := Some (demo_title randomTrack),
           p_artist := Some (demo_artist randomTrack),
           p_showName := Some (demo_showName randomTrack),
           p_hostName := Some (demo_hostName randomTrack),
           p_streamUrl := Some DEMO_STREAM_URL,
           p_listenerCount := Some (r_count + 100) \<rparr>)"

definition radio_metadata :: "database \<Rightarrow> int \<Rightarrow> int \<Rightarrow> nat \<Rightarrow> int \<Rightarrow> payload" where
  "radio_metadata d tq tn r_track r_count =
     (case getCurrentScheduledItem d tq of
        None \<Rightarrow> live_metadata r_track r_count
      | Some currentSchedule \<Rightarrow>
          (case getRadioAssetById d (assetId currentSchedule) of
             None \<Rightarrow> live_metadata r_track r_count
           | Some asset \<Rightarrow> scheduled_metadata d currentSchedule asset tn r_count))"

text \<open>
  The Position Calculator of the specification, in its words:
  \<open>clamp(floor((now - scheduledStart)/1000), 0, durationSeconds)\<close>.
\<close>

definition clamp :: "int \<Rightarrow> int \<Rightarrow> int \<Rightarrow> int" where
  "clamp v lo hi = min (max v lo) hi"

definition spec_positionSeconds :: "int \<Rightarrow> RadioScheduleItem \<Rightarrow> RadioAsset \<Rightarrow> int" where
  "spec_positionSeconds now s a =
     clamp ((now - scheduledStart s) div 1000) 0 (durationSeconds a)"

section \<open>Schedule mutations (DatabaseStorage)\<close>

text \<open>
  What a handler's \<open>try\<close> block can catch: \<open>error.message\<close> is what it sends back.
  The messages of the errors that the database driver and the transport throw are not
  in the sources; the model names them \<open>insert rejected\<close>, \<open>update rejected\<close> and
  \<open>write failed\<close>.
\<close>

datatype exn = Error string

fun message :: "exn \<Rightarrow> string" where
  "message (Error m) = m"

text \<open>
  \<open>InsertRadioSchedule\<close> is the request body of a create, \<open>Partial<RadioScheduleItem>\<close>
  that of an update (of the columns modelled here). The table's constraints are declared
  in the schema module, which the handlers import; they are the parameter \<open>valid\<close>:
  \<open>valid d row\<close> says that the database \<open>d\<close> accepts \<open>row\<close>. A rejected statement
  throws. The new row's \<open>id\<close> is a column default, the input \<open>new_id\<close>.
\<close>

record InsertRadioSchedule =
  ins_assetId :: string
  ins_showId :: "string option"
  ins_scheduledStart :: int
  ins_scheduledEnd :: int

record PartialRadioSchedule =
  set_assetId :: "string option"
  set_showId :: "string option option"
  set_scheduledStart :: "int option"
  set_scheduledEnd :: "int option"

definition createRadioSchedule ::
  "(database \<Rightarrow> RadioScheduleItem \<Rightarrow> bool) \<Rightarrow> database \<Rightarrow> string \<Rightarrow> InsertRadioSchedule
     \<Rightarrow> exn + (RadioScheduleItem \<times> database)" where
  "createRadioSchedule valid d new_id schedule =
     (let newSchedule = \<lparr> schedule_id = new_id, assetId = ins_assetId schedule,
            showId = ins_showId schedule, scheduledStart = ins_scheduledStart schedule,
            scheduledEnd = ins_scheduledEnd schedule \<rparr>
      in if valid d newSchedule
         then Inr (newSchedule, d \<lparr> radioSchedule := radioSchedule d @ [newSchedule] \<rparr>)
         else Inl (Error ''insert rejected''))"

definition apply_set :: "PartialRadioSchedule \<Rightarrow> RadioScheduleItem \<Rightarrow> RadioScheduleItem" where
  "apply_set u r =
     r \<lparr> assetId := (case set_assetId u of None \<Rightarrow> assetId r | Some v \<Rightarrow> v),
         showId := (case set_showId u of None \<Rightarrow> showId r | Some v \<Rightarrow> v),
         scheduledStart := (case set_scheduledStart u of None \<Rightarrow> scheduledStart r | Some v \<Rightarrow> v),
         scheduledEnd := (case set_scheduledEnd u of None \<Rightarrow> scheduledEnd r | Some v \<Rightarrow> v) \<rparr>"

text \<open>
  \<open>update(...).set(update).where(eq(id, id)).returning()\<close>, then
  \<open>if (!updated) throw new Error("Radio schedule not found")\<close>. The query builder's
  \<open>set\<close> throws \<open>No values to set\<close> when the update names no column.
\<close>

definition no_values :: "PartialRadioSchedule \<Rightarrow> bool" where
  "no_values u =
     (set_assetId u = None \<and> set_showId u = None
      \<and> set_scheduledStart u = None \<and> set_scheduledEnd u = None)"

definition updateRadioSchedule ::
  "(database \<Rightarrow> RadioScheduleItem \<Rightarrow> bool) \<Rightarrow> database \<Rightarrow> string \<Rightarrow> PartialRadioSchedule
     \<Rightarrow> exn + (RadioScheduleItem \<times> database)" where
  "updateRadioSchedule valid d i u =
     (if no_values u then Inl (Error ''No values to set'')
      else
        (let returning =
               map (apply_set u) (filter (\<lambda>r. schedule_id r = i) (radioSchedule d))
         in if list_all (valid d) returning
            then (case first_row returning of
                    None \<Rightarrow> Inl (Error ''Radio schedule not found'')
                  | Some updated \<Rightarrow>
                      Inr (updated,
                           d \<lparr> radioSchedule :=
                                 map (\<lambda>r. if schedule_id r = i then apply_set u r else r)
                                     (radioSchedule d) \<rparr>))
            else Inl (Error ''update rejected'')))"

definition deleteRadioSchedule :: "database \<Rightarrow> string \<Rightarrow> database" where
  "deleteRadioSchedule d i =
     d \<lparr> radioSchedule := filter (\<lambda>r. schedule_id r \<noteq> i) (radioSchedule d) \<rparr>"

section \<open>The listener registry and the broadcast\<close>

text \<open>
  A channel is an open \<open>Response\<close>; \<open>sseClients\<close> is a JavaScript \<open>Set\<close>, which keeps
  insertion order and no duplicates. \<open>outbox s c\<close> is what has been written to \<open>c\<close>, in
  order. Whether \<open>client.write\<close> throws is a property of the transport: the parameter
  \<open>throws\<close>.
\<close>

type_synonym channel = nat

record server =
  db :: database
  sseClients :: "channel list"
  outbox :: "channel \<Rightarrow> payload list"

definition set_add :: "channel \<Rightarrow> channel list \<Rightarrow> channel list" where
  "set_add c cs = (if c \<in> set cs then cs else cs @ [c])"

definition set_delete :: "channel \<Rightarrow> channel list \<Rightarrow> channel list" where
  "set_delete c cs = removeAll c cs"

text \<open>
  \<open>sseClients.forEach((client) => { client.write(message); })\<close>: an exception thrown by
  the callback leaves \<open>forEach\<close> at once; what was written before stays written.
\<close>

fun forEach_write ::
  "(channel \<Rightarrow> bool) \<Rightarrow> payload \<Rightarrow> channel list \<Rightarrow> (channel \<Rightarrow> payload list)
     \<Rightarrow> exn option \<times> (channel \<Rightarrow> payload list)" where
  "forEach_write throws m [] ob = (None, ob)"
| "forEach_write throws m (client # rest) ob =
     (if throws client then (Some (Error ''write failed''), ob)
      else forEach_write throws m rest (ob (client := ob client @ [m])))"

definition broadcastToSSEClients ::
  "(channel \<Rightarrow> bool) \<Rightarrow> payload \<Rightarrow> server \<Rightarrow> exn option \<times> server" where
  "broadcastToSSEClients throws data s =
     (case forEach_write throws data (sseClients s) (outbox s) of
        (e, ob) \<Rightarrow> (e, s \<lparr> outbox := ob \<rparr>))"

section \<open>POST, PATCH and DELETE /api/radio/schedule\<close>

datatype 'a response = Json 'a | Status nat string

definition schedule_update_msg :: "RadioScheduleItem \<Rightarrow> RadioAsset option \<Rightarrow> payload" where
  "schedule_update_msg scheduleItem asset =
     empty_payload \<lparr> p_type := Some ''schedule_update'',
                     p_scheduleItem := Some scheduleItem,
                     p_asset := map_option asset_view asset \<rparr>"

definition schedule_deleted_msg :: "string \<Rightarrow> payload" where
  "schedule_deleted_msg i =
     empty_payload \<lparr> p_type := Some ''schedule_deleted'', p_scheduleId := Some i \<rparr>"

text \<open>The handlers as they run once \<open>requireAuth\<close> has called \<open>next()\<close>.\<close>

definition post_radio_schedule ::
  "(channel \<Rightarrow> bool) \<Rightarrow> (database \<Rightarrow> RadioScheduleItem \<Rightarrow> bool) \<Rightarrow> string
     \<Rightarrow> InsertRadioSchedule \<Rightarrow> server \<Rightarrow> RadioScheduleItem response \<times> server" where
  "post_radio_schedule throws valid new_id body s =
     (case createRadioSchedule valid (db s) new_id body of
        Inl e \<Rightarrow> (Status 400 (message e), s)
      | Inr (scheduleItem, d') \<Rightarrow>
          (let s1 = s \<lparr> db := d' \<rparr>
           in case getRadioAssetById d' (assetId scheduleItem) of
                None \<Rightarrow> (Json scheduleItem, s1)
              | Some asset \<Rightarrow>
                  (case broadcastToSSEClients throws
                          (schedule_update_msg scheduleItem (Some asset)) s1 of
                     (None, s2) \<Rightarrow> (Json scheduleItem, s2)
                   | (Some e, s2) \<Rightarrow> (Status 400 (message e), s2))))"

definition patch_radio_schedule ::
  "(channel \<Rightarrow> bool) \<Rightarrow> (database \<Rightarrow> RadioScheduleItem \<Rightarrow> bool) \<Rightarrow> string
     \<Rightarrow> PartialRadioSchedule \<Rightarrow> server \<Rightarrow> RadioScheduleItem response \<times> server" where
  "patch_radio_schedule throws valid i body s =
     (case updateRadioSchedule valid (db s) i body of
        Inl e \<Rightarrow> (Status 400 (message e), s)
      | Inr (scheduleItem, d') \<Rightarrow>
          (case broadcastToSSEClients throws (schedule_update_msg scheduleItem None)
                  (s \<lparr> db := d' \<rparr>) of
             (None, s2) \<Rightarrow> (Json scheduleItem, s2)
           | (Some e, s2) \<Rightarrow> (Status 400 (message e), s2)))"

definition delete_radio_schedule ::
  "(channel \<Rightarrow> bool) \<Rightarrow> string \<Rightarrow> server \<Rightarrow> string response \<times> server" where
  "delete_radio_schedule throws i s =
     (case broadcastToSSEClients throws (schedule_deleted_msg i)
             (s \<lparr> db := deleteRadioSchedule (db s) i \<rparr>) of
        (None, s2) \<Rightarrow> (Json ''Schedule item deleted'', s2)
      | (Some e, s2) \<Rightarrow> (Status 400 (message e), s2))"

section \<open>GET /api/radio/stream-state\<close>

text \<open>
  \<open>res.write\<close> inside the \<open>try\<close> of the initial-state block: an exception is logged
  and nothing is written.
\<close>

definition res_write :: "(channel \<Rightarrow> bool) \<Rightarrow> channel \<Rightarrow> payload \<Rightarrow> server \<Rightarrow> server" where
  "res_write throws res m s =
     (if throws res then s else s \<lparr> outbox := (outbox s) (res := outbox s res @ [m]) \<rparr>)"

definition initial_scheduled_state :: "RadioScheduleItem \<Rightarrow> RadioAsset \<Rightarrow> int \<Rightarrow> payload" where
  "initial_scheduled_state currentSchedule asset tn =
     (let startedAt = scheduledStart currentSchedule;
          positionSeconds = (tn - startedAt) div 1000
      in empty_payload \<lparr>
           p_type := Some ''state'',
           p_isScheduled := Some True,
           p_currentAsset := Some (asset_view asset),
           p_streamUrl := Some (audioUrl asset),
           p_startedAt := Some (scheduledStart currentSchedule),
           p_positionSeconds := Some (min positionSeconds (durationSeconds asset)) \<rparr>)"

definition initial_live_state :: payload where
  "initial_live_state =
     empty_payload \<lparr> p_type := Some ''state'', p_isScheduled := Some False,
                     p_streamUrl := Some DEMO_STREAM_URL \<rparr>"

text \<open>
  The connection handler: register the response, then send the initial state. The
  \<open>else\<close> belongs to \<open>if (currentSchedule)\<close>; the inner \<open>if (asset)\<close> has none.
\<close>

definition stream_state :: "(channel \<Rightarrow> bool) \<Rightarrow> channel \<Rightarrow> int \<Rightarrow> int \<Rightarrow> server \<Rightarrow> server" where
  "stream_state throws res tq tn s =
     (let s1 = s \<lparr> sseClients := set_add res (sseClients s) \<rparr>
      in case getCurrentScheduledItem (db s1) tq of
           Some currentSchedule \<Rightarrow>
             (case getRadioAssetById (db s1) (assetId currentSchedule) of
                Some asset \<Rightarrow>
                  res_write throws res (initial_scheduled_state currentSchedule asset tn) s1
              | None \<Rightarrow> s1)
         | None \<Rightarrow> res_write throws res initial_live_state s1)"

text \<open>\<open>req.on("close", ...)\<close>\<close>

definition stream_state_close :: "channel \<Rightarrow> server \<Rightarrow> server" where
  "stream_state_close res s = s \<lparr> sseClients := set_delete res (sseClients s) \<rparr>"

section \<open>Authentication (JWT sessions)\<close>

text \<open>
  \<open>jwt.verify\<close> belongs to the library \<open>jsonwebtoken\<close>: it is the parameter \<open>jwt_verify\<close>,
  a function of the token, the secret and the clock that gives the payload, or \<open>None\<close>
  where the library throws.
\<close>

record JWTPayload =
  username :: string
  iat :: "int option"
  exp :: "int option"

type_synonym jwt_verify = "string \<Rightarrow> string \<Rightarrow> int \<Rightarrow> JWTPayload option"

definition verifyToken :: "jwt_verify \<Rightarrow> string \<Rightarrow> int \<Rightarrow> string \<Rightarrow> JWTPayload option" where
  "verifyToken jwt_ver secret now token = jwt_ver token secret now"

text \<open>\<open>return payload?.username || null\<close>: an empty user name is falsy.\<close>

definition validateSession :: "jwt_verify \<Rightarrow> string \<Rightarrow> int \<Rightarrow> string \<Rightarrow> string option" where
  "validateSession jwt_ver secret now token =
     (case verifyToken jwt_ver secret now token of
        None \<Rightarrow> None
      | Some payload \<Rightarrow> (if username payload = [] then None else Some (username payload)))"

text \<open>\<open>export function deleteSession(_token: string): void { }\<close>, run in a server state.\<close>

definition deleteSession :: "server \<Rightarrow> string \<Rightarrow> server" where
  "deleteSession s token = s"

text \<open>JavaScript's \<open>String.prototype.replace\<close> with a string pattern: the first occurrence.\<close>

fun replace :: "string \<Rightarrow> string \<Rightarrow> string \<Rightarrow> string" where
  "replace pat rep [] = (if pat = [] then rep else [])"
| "replace pat rep (c # cs) =
     (if take (length pat) (c # cs) = pat then rep @ drop (length pat) (c # cs)
      else c # replace pat rep cs)"

definition bearer :: "string option \<Rightarrow> string option" where
  "bearer authorization = map_option (replace ''Bearer '' []) authorization"

definition auth_logout :: "string option \<Rightarrow> server \<Rightarrow> string response \<times> server" where
  "auth_logout authorization s =
     (case bearer authorization of
        None \<Rightarrow> (Json ''Logged out successfully'', s)
      | Some sessionId \<Rightarrow>
          (if sessionId = [] then (Json ''Logged out successfully'', s)
           else (Json ''Logged out successfully'', deleteSession s sessionId)))"

definition auth_me ::
  "jwt_verify \<Rightarrow> string \<Rightarrow> int \<Rightarrow> string option \<Rightarrow> server \<Rightarrow> string response" where
  "auth_me jwt_ver secret now authorization s =
     (case bearer authorization of
        None \<Rightarrow> Status 401 ''Not authenticated''
      | Some sessionId \<Rightarrow>
          (if sessionId = [] then Status 401 ''Not authenticated''
           else (case validateSession jwt_ver secret now sessionId of
                   None \<Rightarrow> Status 401 ''Invalid session''
                 | Some user \<Rightarrow> Json user)))"

definition requireAuth ::
  "jwt_verify \<Rightarrow> string \<Rightarrow> int \<Rightarrow> string option \<Rightarrow> server \<Rightarrow> string response" where
  "requireAuth jwt_ver secret now authorization s =
     (case bearer authorization of
        None \<Rightarrow> Status 401 ''Authentication required''
      | Some token \<Rightarrow>
          (if token = [] then Status 401 ''Authentication required''
           else (case validateSession jwt_ver secret now token of
                   None \<Rightarrow> Status 401 ''Invalid or expired session''
                 | Some user \<Rightarrow> Json user)))"

section \<open>The client: RadioProvider\<close>

text \<open>
  The component's \<open>useState\<close> values and its refs, in one record. The audio element
  (\<open>audioRef.current\<close>) has the attributes the code reads and writes; \<open>currentTime\<close>
  is in seconds, a fraction, here an exact real number (the rounding of JavaScript's
  doubles is not modelled). \<open>loads\<close> counts the calls of \<open>load()\<close>, which put the
  playback position back to the start. \<open>play()\<close> is taken to succeed.
\<close>

record RadioTrack =
  track_title :: string
  track_artist :: string
  coverUrl :: "string option"
  showName :: "string option"
  hostName :: "string option"

record audio =
  src :: "string option"
  currentTime :: real
  paused :: bool
  audio_volume :: real
  loads :: nat

record client =
  isPlaying :: bool
  volume :: real
  isExpanded :: bool
  progress :: real
  duration :: real
  listenerCount :: int
  isScheduled :: bool
  currentStreamUrl :: "string option"
  currentAsset :: "RadioAsset option"
  startedAt :: "int option"
  currentTrack :: "RadioTrack option"
  isLive :: bool
  audioRef :: "audio option"
  sseConnected :: bool

definition live_track :: RadioTrack where
  "live_track = \<lparr> track_title = ''GroupTherapy Radio'', track_artist = ''Live Stream'',
     coverUrl = None, showName = None, hostName = None \<rparr>"

definition initial_client :: client where
  "initial_client = \<lparr> isPlaying = False, volume = 7 / 10, isExpanded = False, progress = 0,
     duration = 0, listenerCount = 127, isScheduled = False,
     currentStreamUrl = Some DEMO_STREAM_URL, currentAsset = None, startedAt = None,
     currentTrack = Some live_track, isLive = True, audioRef = None, sseConnected = False \<rparr>"

text \<open>
  \<open>initAudio(streamUrl)\<close>, with the volume its closure holds and the element the ref
  holds: an existing element is paused, given the new source, loaded, and played again if
  it was playing; otherwise a new element is made.
\<close>

definition initAudio :: "real \<Rightarrow> audio option \<Rightarrow> string option \<Rightarrow> audio option" where
  "initAudio vol ref streamUrl =
     (case ref of
        Some a \<Rightarrow>
          (let wasPlaying = \<not> paused a;
               a1 = a \<lparr> paused := True \<rparr>;
               a2 = a1 \<lparr> src := streamUrl \<rparr>;
               a3 = a2 \<lparr> currentTime := 0, loads := loads a2 + 1 \<rparr>
           in Some (if wasPlaying then a3 \<lparr> paused := False \<rparr> else a3))
      | None \<Rightarrow>
          Some \<lparr> src = streamUrl, currentTime = 0, paused = True, audio_volume = vol,
                 loads = 0 \<rparr>)"

text \<open>The mount effect: \<open>initAudio(DEMO_STREAM_URL)\<close>.\<close>

definition mount :: "client \<Rightarrow> client" where
  "mount st = st \<lparr> audioRef := initAudio (volume st) (audioRef st) (Some DEMO_STREAM_URL) \<rparr>"

text \<open>
  \<open>syncPlaybackPosition\<close> is a \<open>useCallback\<close> closure over \<open>currentAsset\<close> and
  \<open>isLive\<close>: it reads them from the render \<open>st\<close> in which it was made, and the audio
  element from the ref.
\<close>

definition syncPlaybackPosition :: "client \<Rightarrow> audio option \<Rightarrow> int \<Rightarrow> audio option" where
  "syncPlaybackPosition st ref positionSeconds =
     (case ref of
        None \<Rightarrow> ref
      | Some a \<Rightarrow>
          (case currentAsset st of
             None \<Rightarrow> ref
           | Some asset \<Rightarrow>
               (if isLive st then ref
                else (let targetPosition = min positionSeconds (durationSeconds asset)
                      in if \<bar>currentTime a - real_of_int targetPosition\<bar> > 2
                         then Some (a \<lparr> currentTime := real_of_int targetPosition \<rparr>)
                         else ref))))"

text \<open>
  \<open>handleSSEMessage\<close> is a closure of the same render: the state setters prepare the
  next state, while \<open>currentStreamUrl\<close>, \<open>initAudio\<close> and \<open>syncPlaybackPosition\<close> are
  those of \<open>st\<close>. The event's data is \<open>None\<close> where \<open>JSON.parse\<close> throws.
\<close>

definition on_scheduled :: "client \<Rightarrow> payload \<Rightarrow> RadioAsset \<Rightarrow> client" where
  "on_scheduled st data asset =
     (let s1 = st \<lparr> isScheduled := True, isLive := False, currentAsset := Some asset,
                     currentTrack := Some \<lparr> track_title = title asset,
                        track_artist = artist asset, coverUrl = None,
                        showName = p_showName data, hostName = p_hostName data \<rparr>,
                     duration := real_of_int (durationSeconds asset) \<rparr>;
          s2 = (if p_streamUrl data \<noteq> currentStreamUrl st
                then s1 \<lparr> currentStreamUrl := p_streamUrl data,
                          audioRef := initAudio (volume st) (audioRef s1) (p_streamUrl data) \<rparr>
                else s1);
          s3 = (case p_startedAt data of
                  Some t \<Rightarrow> s2 \<lparr> startedAt := Some t \<rparr>
                | None \<Rightarrow> s2)
      in case p_positionSeconds data of
           Some pos \<Rightarrow> s3 \<lparr> audioRef := syncPlaybackPosition st (audioRef s3) pos \<rparr>
         | None \<Rightarrow> s3)"

definition on_live :: "client \<Rightarrow> client" where
  "on_live st =
     (let s1 = st \<lparr> isScheduled := False, isLive := True, currentAsset := None,
                     currentTrack := Some live_track \<rparr>
      in if Some DEMO_STREAM_URL \<noteq> currentStreamUrl st
         then s1 \<lparr> currentStreamUrl := Some DEMO_STREAM_URL,
                   audioRef := initAudio (volume st) (audioRef s1) (Some DEMO_STREAM_URL) \<rparr>
         else s1)"

definition on_deleted :: "client \<Rightarrow> client" where
  "on_deleted st =
     st \<lparr> isScheduled := False, isLive := True, currentStreamUrl := Some DEMO_STREAM_URL,
          audioRef := initAudio (volume st) (audioRef st) (Some DEMO_STREAM_URL) \<rparr>"

definition handleSSEMessage :: "client \<Rightarrow> payload option \<Rightarrow> client" where
  "handleSSEMessage st event_data =
     (case event_data of
        None \<Rightarrow> st
      | Some data \<Rightarrow>
          (if p_type data = Some ''state'' \<or> p_type data = Some ''schedule_update''
           then (if p_isScheduled data = Some True
                 then (case p_currentAsset data of
                         Some asset \<Rightarrow> on_scheduled st data asset
                       | None \<Rightarrow> on_live st)
                 else on_live st)
           else if p_type data = Some ''schedule_deleted'' then on_deleted st
           else st))"

text \<open>
  The progress effect: it runs \<open>updateProgress\<close> at once and then every second, unless
  \<open>!isScheduled || !startedAt || !currentAsset\<close>. \<open>now\<close> is \<open>Date.now()\<close>.
\<close>

definition updateProgress :: "client \<Rightarrow> int \<Rightarrow> client" where
  "updateProgress st now =
     (if isScheduled st
      then (case startedAt st of
              None \<Rightarrow> st
            | Some startTime \<Rightarrow>
                (case currentAsset st of
                   None \<Rightarrow> st
                 | Some asset \<Rightarrow>
                     (let elapsed = (now - startTime) div 1000;
                          pos = min elapsed (durationSeconds asset)
                      in st \<lparr> progress := real_of_int pos \<rparr>)))
      else st)"

text \<open>The user's controls.\<close>

definition play :: "client \<Rightarrow> client" where
  "play st =
     (case audioRef st of
        None \<Rightarrow> st
      | Some a \<Rightarrow> st \<lparr> audioRef := Some (a \<lparr> paused := False \<rparr>), isPlaying := True \<rparr>)"

definition pause :: "client \<Rightarrow> client" where
  "pause st =
     (case audioRef st of
        None \<Rightarrow> st
      | Some a \<Rightarrow> st \<lparr> audioRef := Some (a \<lparr> paused := True \<rparr>), isPlaying := False \<rparr>)"

definition seek :: "client \<Rightarrow> real \<Rightarrow> client" where
  "seek st time =
     (case audioRef st of
        None \<Rightarrow> st
      | Some a \<Rightarrow>
          (if isLive st then st else st \<lparr> audioRef := Some (a \<lparr> currentTime := time \<rparr>) \<rparr>))"

text \<open>
  What an observer of the audio element sees: the source it has loaded and how often it
  has been loaded again.
\<close>

definition loaded_src :: "client \<Rightarrow> string option" where
  "loaded_src st = (case audioRef st of None \<Rightarrow> None | Some a \<Rightarrow> src a)"

definition load_count :: "client \<Rightarrow> nat" where
  "load_count st = (case audioRef st of None \<Rightarrow> 0 | Some a \<Rightarrow> loads a)"

text \<open>
  The state a client is in between events: the element exists (the mount effect made
  it) and its source is the one the state names.
\<close>

definition audio_loaded :: "client \<Rightarrow> bool" where
  "audio_loaded st =
     (case audioRef st of None \<Rightarrow> False | Some a \<Rightarrow> src a = currentStreamUrl st)"

section \<open>Example data\<close>

text \<open>
  A schedule of one item that plays a 180-second asset from \<open>T = 1000\<close> to
  \<open>T + 180 s\<close>; a second item that overlaps it; the same schedule with the asset gone;
  a registry of three listeners of which the second throws on write.
\<close>

definition ex_asset :: RadioAsset where
  "ex_asset = \<lparr> asset_id = ''a1'', title = ''Set One'', artist = ''Luna'',
     audioUrl = ''https://cdn.example/a1.mp3'', durationSeconds = 180 \<rparr>"

definition ex_item :: RadioScheduleItem where
  "ex_item = \<lparr> schedule_id = ''s1'', assetId = ''a1'', showId = None,
     scheduledStart = 1000, scheduledEnd = 181000 \<rparr>"

definition ex_item_late :: RadioScheduleItem where
  "ex_item_late = \<lparr> schedule_id = ''s2'', assetId = ''a1'', showId = None,
     scheduledStart = 60000, scheduledEnd = 120000 \<rparr>"

definition ex_db :: database where
  "ex_db = \<lparr> radioAssets = [ex_asset], radioSchedule = [ex_item], radioShows = [] \<rparr>"

definition ex_db_overlap :: database where
  "ex_db_overlap = \<lparr> radioAssets = [ex_asset], radioSchedule = [ex_item, ex_item_late],
     radioShows = [] \<rparr>"

definition ex_db_dangling :: database where
  "ex_db_dangling = \<lparr> radioAssets = [], radioSchedule = [ex_item], radioShows = [] \<rparr>"

definition ex_server :: server where
  "ex_server = \<lparr> db = ex_db, sseClients = [1, 2, 3], outbox = (\<lambda>c. []) \<rparr>"

definition ex_server_dangling :: server where
  "ex_server_dangling = \<lparr> db = ex_db_dangling, sseClients = [], outbox = (\<lambda>c. []) \<rparr>"

definition ex_throws :: "channel \<Rightarrow> bool" where
  "ex_throws c = (c = 2)"

text \<open>
  Request bodies for a create (with a resolving and with a dangling \<open>assetId\<close>) and for
  an update (one that moves the end, one that names no column), the rows they produce,
  a schema that accepts every row and a transport on which no write throws.
\<close>

definition ex_body :: InsertRadioSchedule where
  "ex_body = \<lparr> ins_assetId = ''a1'', ins_showId = None,
     ins_scheduledStart = 200000, ins_scheduledEnd = 380000 \<rparr>"

definition ex_body_dangling :: InsertRadioSchedule where
  "ex_body_dangling = \<lparr> ins_assetId = ''gone'', ins_showId = None,
     ins_scheduledStart = 200000, ins_scheduledEnd = 380000 \<rparr>"

definition ex_patch :: PartialRadioSchedule where
  "ex_patch = \<lparr> set_assetId = None, set_showId = None,
     set_scheduledStart = None, set_scheduledEnd = Some 121000 \<rparr>"

definition ex_patch_empty :: PartialRadioSchedule where
  "ex_patch_empty = \<lparr> set_assetId = None, set_showId = None,
     set_scheduledStart = None, set_scheduledEnd = None \<rparr>"

definition ex_created :: RadioScheduleItem where
  "ex_created = \<lparr> schedule_id = ''s9'', assetId = ''a1'', showId = None,
     scheduledStart = 200000, scheduledEnd = 380000 \<rparr>"

definition ex_created_dangling :: RadioScheduleItem where
  "ex_created_dangling = \<lparr> schedule_id = ''s9'', assetId = ''gone'', showId = None,
     scheduledStart = 200000, scheduledEnd = 380000 \<rparr>"

definition ex_patched :: RadioScheduleItem where
  "ex_patched = \<lparr> schedule_id = ''s1'', assetId = ''a1'', showId = None,
     scheduledStart = 1000, scheduledEnd = 121000 \<rparr>"

definition ex_valid :: "database \<Rightarrow> RadioScheduleItem \<Rightarrow> bool" where
  "ex_valid d r = True"

definition ex_quiet :: "channel \<Rightarrow> bool" where
  "ex_quiet c = False"

text \<open>
  The \<open>state\<close> message of the specification's example (an asset of 180 seconds at
  position 175), the client that has handled it after mounting, and a token verifier
  that accepts one token for a day.
\<close>

definition ex_state_msg :: payload where
  "ex_state_msg = empty_payload \<lparr> p_type := Some ''state'', p_isScheduled := Some True,
     p_currentAsset := Some ex_asset, p_streamUrl := Some (audioUrl ex_asset),
     p_startedAt := Some 1000, p_positionSeconds := Some 175 \<rparr>"

definition ex_client_scheduled :: client where
  "ex_client_scheduled = handleSSEMessage (mount initial_client) (Some ex_state_msg)"

definition ex_jwt :: jwt_verify where
  "ex_jwt token secret now =
     (if token = ''tok1'' \<and> secret = ''k'' \<and> now < 86400
      then Some \<lparr> username = ''admin'', iat = Some 0, exp = Some 86400 \<rparr>
      else None)"

section \<open>The current-item lookup\<close>

lemma first_row_take1: "first_row (take 1 xs) = first_row xs"
  by (cases xs) (simp_all add: first_row_def)

lemma first_row_None: "first_row xs = None \<longleftrightarrow> xs = []"
  by (cases xs) (simp_all add: first_row_def)

lemma first_row_Some: "first_row xs = Some r \<Longrightarrow> \<exists>ys. xs = r # ys"
  by (cases xs) (simp_all add: first_row_def)

lemma order_by_desc_start_set: "set (order_by_desc_start rows) = set rows"
  by (simp add: order_by_desc_start_def)

lemma order_by_desc_start_Nil: "order_by_desc_start rows = [] \<longleftrightarrow> rows = []"
  using order_by_desc_start_set [of rows] by (metis set_empty)

lemma order_by_desc_start_head:
  assumes "order_by_desc_start rows = r # rest" and "x \<in> set rows"
  shows "scheduledStart x \<le> scheduledStart r"
proof -
  have "sorted (map (\<lambda>s. - scheduledStart s) (order_by_desc_start rows))"
    by (simp add: order_by_desc_start_def)
  with assms(1) have "\<forall>y \<in> set rest. - scheduledStart r \<le> - scheduledStart y"
    by simp
  moreover have "x \<in> set (r # rest)"
    using assms order_by_desc_start_set by metis
  ultimately show ?thesis by auto
qed

lemma getCurrent_None:
  "getCurrentScheduledItem d now = None \<longleftrightarrow> filter (is_current now) (radioSchedule d) = []"
  by (simp add: getCurrentScheduledItem_def first_row_take1 first_row_None
      order_by_desc_start_Nil)

lemma getCurrent_Some:
  assumes "getCurrentScheduledItem d now = Some r"
  shows "r \<in> set (radioSchedule d)" and "is_current now r"
    and "\<And>x. x \<in> set (radioSchedule d) \<Longrightarrow> is_current now x
           \<Longrightarrow> scheduledStart x \<le> scheduledStart r"
proof -
  let ?q = "filter (is_current now) (radioSchedule d)"
  from assms obtain rest where h: "order_by_desc_start ?q = r # rest"
    unfolding getCurrentScheduledItem_def first_row_take1 by (blast dest: first_row_Some)
  then have "r \<in> set (order_by_desc_start ?q)" by simp
  then have "r \<in> set ?q" by (simp only: order_by_desc_start_set)
  then show "r \<in> set (radioSchedule d)" and "is_current now r" by simp_all
  fix x assume "x \<in> set (radioSchedule d)" "is_current now x"
  then have "x \<in> set ?q" by simp
  with h show "scheduledStart x \<le> scheduledStart r" by (rule order_by_desc_start_head)
qed

lemma getCurrent_exists:
  assumes "x \<in> set (radioSchedule d)" "is_current now x"
  shows "\<exists>r. getCurrentScheduledItem d now = Some r"
proof -
  from assms have "filter (is_current now) (radioSchedule d) \<noteq> []"
    by (auto simp: filter_empty_conv)
  then have "getCurrentScheduledItem d now \<noteq> None" by (simp add: getCurrent_None)
  then show ?thesis by blast
qed

text \<open>
  An item whose window holds \<open>now\<close> and that started later than every other such item is
  the one the lookup returns.
\<close>

lemma getCurrent_winner:
  assumes "it \<in> set (radioSchedule d)" "is_current now it"
    and "\<And>x. x \<in> set (radioSchedule d) \<Longrightarrow> x \<noteq> it \<Longrightarrow> is_current now x
           \<Longrightarrow> scheduledStart x < scheduledStart it"
  shows "getCurrentScheduledItem d now = Some it"
proof -
  from getCurrent_exists [OF assms(1,2)] obtain r
    where r: "getCurrentScheduledItem d now = Some r" by blast
  have "r = it"
  proof (rule ccontr)
    assume "r \<noteq> it"
    with assms(3) getCurrent_Some(1,2) [OF r]
    have "scheduledStart r < scheduledStart it" by blast
    moreover have "scheduledStart it \<le> scheduledStart r"
      using getCurrent_Some(3) [OF r assms(1,2)] .
    ultimately show False by simp
  qed
  with r show ?thesis by simp
qed

section \<open>The metadata endpoint\<close>

lemma scheduled_metadata_position:
  "p_positionSeconds (scheduled_metadata d s a tn rc) =
     Some (min ((tn - scheduledStart s) div 1000) (durationSeconds a))"
  by (simp add: scheduled_metadata_def Let_def)

lemma scheduled_metadata_isScheduled:
  "p_isScheduled (scheduled_metadata d s a tn rc) = Some True"
  by (simp add: scheduled_metadata_def Let_def)

lemma live_metadata_isScheduled:
  "p_isScheduled (live_metadata rt rc) = Some False"
  by (simp add: live_metadata_def Let_def)

lemma radio_metadata_not_current:
  "getCurrentScheduledItem d tq = None \<Longrightarrow> radio_metadata d tq tn rt rc = live_metadata rt rc"
  by (simp add: radio_metadata_def)

lemma spec_position_eq_code:
  assumes "scheduledStart s \<le> now"
  shows "spec_positionSeconds now s a =
           min ((now - scheduledStart s) div 1000) (durationSeconds a)"
proof -
  from assms have "0 \<le> (now - scheduledStart s) div 1000" by simp
  then show ?thesis by (simp add: spec_positionSeconds_def clamp_def max_def)
qed

text \<open>
  C1, as stated, fails where windows overlap. In the example schedule of two items, at
  \<open>now = 90000\<close> the first item has a resolving asset and \<open>now\<close> lies strictly inside
  its window, 89 seconds after its start; the endpoint reports position 30, measured
  from the start of the second item, which began later.
\<close>

theorem metadata_position_overlap_counterexample:
  "ex_item \<in> set (radioSchedule ex_db_overlap)
   \<and> getRadioAssetById ex_db_overlap (assetId ex_item) = Some ex_asset
   \<and> scheduledStart ex_item < 90000 \<and> 90000 < scheduledEnd ex_item
   \<and> spec_positionSeconds 90000 ex_item ex_asset = 89
   \<and> p_positionSeconds (radio_metadata ex_db_overlap 90000 90000 0 0) = Some 30"
  by (simp add: getCurrentScheduledItem_def order_by_desc_start_def is_current_def
      first_row_def radio_metadata_def getRadioAssetById_def scheduled_metadata_def Let_def
      spec_positionSeconds_def clamp_def
      ex_db_overlap_def ex_item_def ex_item_late_def ex_asset_def)

text \<open>
  C1, amended. Let a schedule item have a resolving asset, let \<open>now\<close> lie in
  \<open>[scheduledStart, scheduledEnd)\<close>, and let the item be the one the lookup's tie-break
  selects (every other item current at \<open>now\<close> started earlier). Then the metadata
  endpoint answers \<open>isScheduled = true\<close> with
  \<open>positionSeconds = clamp(floor((now - scheduledStart)/1000), 0, durationSeconds)\<close>; the
  position never exceeds the asset's duration and, the duration being non-negative, is
  never negative.
\<close>

theorem metadata_position_in_window:
  assumes "it \<in> set (radioSchedule d)"
    and "scheduledStart it \<le> now" and "now < scheduledEnd it"
    and "\<forall>x \<in> set (radioSchedule d).
           x \<noteq> it \<and> is_current now x \<longrightarrow> scheduledStart x < scheduledStart it"
    and "getRadioAssetById d (assetId it) = Some a"
  shows "p_isScheduled (radio_metadata d now now rt rc) = Some True
       \<and> p_positionSeconds (radio_metadata d now now rt rc)
           = Some (spec_positionSeconds now it a)
       \<and> spec_positionSeconds now it a \<le> durationSeconds a
       \<and> (0 \<le> durationSeconds a \<longrightarrow> 0 \<le> spec_positionSeconds now it a)"
proof -
  have cur: "is_current now it" using assms(2,3) by (simp add: is_current_def)
  have sel: "getCurrentScheduledItem d now = Some it"
    using assms(1) cur assms(4) by (intro getCurrent_winner) blast+
  have md: "radio_metadata d now now rt rc = scheduled_metadata d it a now rc"
    by (simp add: radio_metadata_def sel assms(5))
  have pos: "spec_positionSeconds now it a =
               min ((now - scheduledStart it) div 1000) (durationSeconds a)"
    using assms(2) by (rule spec_position_eq_code)
  have nonneg: "0 \<le> (now - scheduledStart it) div 1000" using assms(2) by simp
  show ?thesis
    using nonneg
    by (simp add: md pos scheduled_metadata_position scheduled_metadata_isScheduled)
qed

text \<open>At 5.5 seconds into the example item the position is 5.\<close>

theorem metadata_position_in_window_witness:
  "p_isScheduled (radio_metadata ex_db 6500 6500 0 0) = Some True
   \<and> p_positionSeconds (radio_metadata ex_db 6500 6500 0 0) = Some 5
   \<and> spec_positionSeconds 6500 ex_item ex_asset = 5"
proof -
  have h1: "ex_item \<in> set (radioSchedule ex_db)" by (simp add: ex_db_def)
  have h2: "scheduledStart ex_item \<le> 6500" by (simp add: ex_item_def)
  have h3: "6500 < scheduledEnd ex_item" by (simp add: ex_item_def)
  have h4: "\<forall>x \<in> set (radioSchedule ex_db). x \<noteq> ex_item \<and> is_current 6500 x
              \<longrightarrow> scheduledStart x < scheduledStart ex_item"
    by (simp add: ex_db_def)
  have h5: "getRadioAssetById ex_db (assetId ex_item) = Some ex_asset"
    by (simp add: getRadioAssetById_def first_row_def ex_db_def ex_item_def ex_asset_def)
  have v: "spec_positionSeconds 6500 ex_item ex_asset = 5"
    by (simp add: spec_positionSeconds_def clamp_def ex_item_def ex_asset_def)
  show ?thesis
    using metadata_position_in_window [OF h1 h2 h3 h4 h5, of 0 0] v by simp
qed

text \<open>
  C2, as stated, fails where \<open>now\<close> equals an item's \<open>scheduledEnd\<close>: the lookup compares
  with \<open>gte\<close>, so the example item is still current at \<open>T + 180 s\<close> exactly, and the
  endpoint answers \<open>isScheduled = true\<close>.
\<close>

theorem lookup_at_scheduledEnd_counterexample:
  "181000 = scheduledEnd ex_item
   \<and> getCurrentScheduledItem ex_db 181000 = Some ex_item
   \<and> p_isScheduled (radio_metadata ex_db 181000 181000 0 0) = Some True"
  by (simp add: getCurrentScheduledItem_def order_by_desc_start_def is_current_def
      first_row_def radio_metadata_def getRadioAssetById_def scheduled_metadata_def Let_def
      ex_db_def ex_item_def ex_asset_def)

text \<open>
  C2, amended. For every query time \<open>now\<close> outside every schedule item's closed window
  \<open>[scheduledStart, scheduledEnd]\<close> (before the start or after the end), the lookup
  selects no item and the metadata endpoint answers \<open>isScheduled = false\<close>.
\<close>

theorem lookup_outside_windows:
  assumes "\<forall>x \<in> set (radioSchedule d). now < scheduledStart x \<or> scheduledEnd x < now"
  shows "getCurrentScheduledItem d now = None
       \<and> p_isScheduled (radio_metadata d now now rt rc) = Some False"
proof -
  have "filter (is_current now) (radioSchedule d) = []"
    using assms by (auto simp: filter_empty_conv is_current_def)
  then have none: "getCurrentScheduledItem d now = None" by (simp add: getCurrent_None)
  then show ?thesis
    by (simp add: radio_metadata_not_current live_metadata_isScheduled)
qed

text \<open>The specification's example: the item ends at \<open>T + 180 s\<close>, the query is at \<open>T + 200 s\<close>.\<close>

theorem lookup_outside_windows_witness:
  "getCurrentScheduledItem ex_db 201000 = None
   \<and> p_isScheduled (radio_metadata ex_db 201000 201000 0 0) = Some False"
proof -
  have h: "\<forall>x \<in> set (radioSchedule ex_db). 201000 < scheduledStart x \<or> scheduledEnd x < 201000"
    by (simp add: ex_db_def ex_item_def)
  show ?thesis using lookup_outside_windows [OF h, of 0 0] by simp
qed

text \<open>
  C3. Whenever two distinct schedule items are both current at \<open>now\<close>, the lookup returns
  an item of the schedule that is current at \<open>now\<close> and whose \<open>scheduledStart\<close> is the
  latest among all items current at \<open>now\<close>.
\<close>

theorem overlap_latest_start:
  assumes "x \<in> set (radioSchedule d)" and "y \<in> set (radioSchedule d)" and "x \<noteq> y"
    and "is_current now x" and "is_current now y"
  shows "\<exists>r. getCurrentScheduledItem d now = Some r
           \<and> r \<in> set (radioSchedule d) \<and> is_current now r
           \<and> (\<forall>z \<in> set (radioSchedule d).
                 is_current now z \<longrightarrow> scheduledStart z \<le> scheduledStart r)"
proof -
  from getCurrent_exists [OF assms(1,4)] obtain r
    where r: "getCurrentScheduledItem d now = Some r" by blast
  from getCurrent_Some [OF r] show ?thesis using r by blast
qed

text \<open>Of the two overlapping example items, the one that started later is returned.\<close>

theorem overlap_latest_start_witness:
  "getCurrentScheduledItem ex_db_overlap 90000 = Some ex_item_late
   \<and> scheduledStart ex_item < scheduledStart ex_item_late"
proof -
  have h1: "ex_item \<in> set (radioSchedule ex_db_overlap)" by (simp add: ex_db_overlap_def)
  have h2: "ex_item_late \<in> set (radioSchedule ex_db_overlap)"
    by (simp add: ex_db_overlap_def)
  have h3: "ex_item \<noteq> ex_item_late" by (simp add: ex_item_def ex_item_late_def)
  have h4: "is_current 90000 ex_item" by (simp add: is_current_def ex_item_def)
  have h5: "is_current 90000 ex_item_late" by (simp add: is_current_def ex_item_late_def)
  from overlap_latest_start [OF h1 h2 h3 h4 h5] obtain r
    where r: "getCurrentScheduledItem ex_db_overlap 90000 = Some r"
      and mem: "r \<in> set (radioSchedule ex_db_overlap)"
      and top: "\<forall>z \<in> set (radioSchedule ex_db_overlap).
                  is_current 90000 z \<longrightarrow> scheduledStart z \<le> scheduledStart r"
    by blast
  from top h2 h5 have "scheduledStart ex_item_late \<le> scheduledStart r" by blast
  with mem have "r = ex_item_late"
    by (auto simp: ex_db_overlap_def ex_item_def ex_item_late_def)
  with r show ?thesis by (simp add: ex_item_def ex_item_late_def)
qed

text \<open>
  A current item whose asset is gone: the metadata endpoint answers as if nothing were
  scheduled, and the connection handler of the push channel writes nothing.
\<close>

lemma radio_metadata_dangling:
  assumes "getCurrentScheduledItem d tq = Some cs"
    and "getRadioAssetById d (assetId cs) = None"
  shows "radio_metadata d tq tn rt rc = live_metadata rt rc"
  using assms by (simp add: radio_metadata_def)

lemma stream_state_dangling:
  assumes "getCurrentScheduledItem (db s) tq = Some cs"
    and "getRadioAssetById (db s) (assetId cs) = None"
  shows "outbox (stream_state throws res tq tn s) = outbox s"
  using assms by (simp add: stream_state_def Let_def)

text \<open>
  C4. The current item of the example schedule references an asset that is gone. The
  metadata endpoint answers the live fallback, \<open>isScheduled = false\<close>. The connection
  handler of the push channel registers the new channel and writes no \<open>state\<close> message
  to it at all: the live \<open>state\<close> message is sent only when no item is current.
\<close>

theorem dangling_asset_initial_state_missing:
  "getCurrentScheduledItem ex_db_dangling 6500 = Some ex_item
   \<and> getRadioAssetById ex_db_dangling (assetId ex_item) = None
   \<and> p_isScheduled (radio_metadata ex_db_dangling 6500 6500 0 0) = Some False
   \<and> sseClients (stream_state (\<lambda>c. False) 7 6500 6500 ex_server_dangling) = [7]
   \<and> outbox (stream_state (\<lambda>c. False) 7 6500 6500 ex_server_dangling) 7 = []"
  by (simp add: getCurrentScheduledItem_def order_by_desc_start_def is_current_def
      first_row_def radio_metadata_def getRadioAssetById_def live_metadata_def Let_def
      stream_state_def set_add_def ex_server_dangling_def ex_db_dangling_def ex_item_def)

section \<open>The broadcast\<close>

text \<open>The registry is a set: it never holds a channel twice.\<close>

lemma distinct_set_add: "distinct cs \<Longrightarrow> distinct (set_add c cs)"
  by (simp add: set_add_def)

lemma distinct_set_delete: "distinct cs \<Longrightarrow> distinct (set_delete c cs)"
  by (simp add: set_delete_def distinct_removeAll)

lemma sseClients_res_write: "sseClients (res_write throws res m s) = sseClients s"
  by (simp add: res_write_def)

lemma sseClients_stream_state:
  "sseClients (stream_state throws res tq tn s) = set_add res (sseClients s)"
  by (simp add: stream_state_def Let_def sseClients_res_write split: option.split)

lemma distinct_stream_state:
  "distinct (sseClients s) \<Longrightarrow> distinct (sseClients (stream_state throws res tq tn s))"
  by (simp add: sseClients_stream_state distinct_set_add)

lemma forEach_write_throw:
  assumes "distinct (pre @ k # post)" and "\<forall>c \<in> set pre. \<not> throws c" and "throws k"
  shows "forEach_write throws m (pre @ k # post) ob =
           (Some (Error ''write failed''), \<lambda>c. if c \<in> set pre then ob c @ [m] else ob c)"
  using assms
proof (induction pre arbitrary: ob)
  case Nil
  then show ?case by simp
next
  case (Cons p pre)
  have "forEach_write throws m (pre @ k # post) (ob (p := ob p @ [m])) =
          (Some (Error ''write failed''),
           \<lambda>c. if c \<in> set pre then (ob (p := ob p @ [m])) c @ [m]
                else (ob (p := ob p @ [m])) c)"
    using Cons.prems by (intro Cons.IH) auto
  moreover have "p \<notin> set pre" using Cons.prems(1) by simp
  ultimately show ?case using Cons.prems(2) by (auto simp: fun_eq_iff)
qed

lemma forEach_write_ok:
  assumes "distinct cs" and "\<forall>c \<in> set cs. \<not> throws c"
  shows "forEach_write throws m cs ob =
           (None, \<lambda>c. if c \<in> set cs then ob c @ [m] else ob c)"
  using assms
proof (induction cs arbitrary: ob)
  case Nil
  then show ?case by simp
next
  case (Cons p cs)
  have "forEach_write throws m cs (ob (p := ob p @ [m])) =
          (None, \<lambda>c. if c \<in> set cs then (ob (p := ob p @ [m])) c @ [m]
                      else (ob (p := ob p @ [m])) c)"
    using Cons.prems by (intro Cons.IH) auto
  moreover have "p \<notin> set cs" using Cons.prems(1) by simp
  ultimately show ?case using Cons.prems(2) by (auto simp: fun_eq_iff)
qed

lemma broadcast_ok:
  assumes "distinct (sseClients s)" and "\<forall>c \<in> set (sseClients s). \<not> throws c"
  shows "broadcastToSSEClients throws m s =
           (None, s \<lparr> outbox := (\<lambda>c. if c \<in> set (sseClients s) then outbox s c @ [m]
                                      else outbox s c) \<rparr>)"
  by (simp add: broadcastToSSEClients_def forEach_write_ok [OF assms])

text \<open>
  C5, as stated, fails: with three listeners of which the second throws on write, the
  third receives nothing and the second is still registered after the broadcast.
\<close>

theorem broadcast_throw_counterexample:
  "ex_throws 2 \<and> sseClients ex_server = [1, 2, 3]
   \<and> outbox (snd (broadcastToSSEClients ex_throws (schedule_deleted_msg ''s1'') ex_server)) 3
       = []
   \<and> sseClients (snd (broadcastToSSEClients ex_throws (schedule_deleted_msg ''s1'') ex_server))
       = [1, 2, 3]"
  by (simp add: broadcastToSSEClients_def ex_server_def ex_throws_def)

text \<open>
  C5, amended. A broadcast writes to the registered channels in registration order. If
  channel \<open>k\<close> is the first that throws on write, the exception leaves the broadcast: the
  channels registered before \<open>k\<close> have received the message, \<open>k\<close> and the channels
  registered after it have not, and the registry is unchanged (\<open>k\<close> stays registered).
\<close>

theorem broadcast_stops_at_throw:
  assumes "sseClients s = pre @ k # post" and "distinct (sseClients s)"
    and "\<forall>c \<in> set pre. \<not> throws c" and "throws k"
  shows "fst (broadcastToSSEClients throws m s) = Some (Error ''write failed'')
       \<and> sseClients (snd (broadcastToSSEClients throws m s)) = sseClients s
       \<and> (\<forall>c \<in> set pre. outbox (snd (broadcastToSSEClients throws m s)) c = outbox s c @ [m])
       \<and> (\<forall>c \<in> set (k # post).
             outbox (snd (broadcastToSSEClients throws m s)) c = outbox s c)"
proof -
  have d: "distinct (pre @ k # post)" using assms(1,2) by simp
  have "broadcastToSSEClients throws m s =
          (Some (Error ''write failed''),
           s \<lparr> outbox := (\<lambda>c. if c \<in> set pre then outbox s c @ [m] else outbox s c) \<rparr>)"
    by (simp add: broadcastToSSEClients_def assms(1) forEach_write_throw [OF d assms(3,4)])
  then show ?thesis using d by auto
qed

text \<open>In the example the first listener receives the message, the other two do not.\<close>

theorem broadcast_stops_at_throw_witness:
  "fst (broadcastToSSEClients ex_throws (schedule_deleted_msg ''s1'') ex_server)
      = Some (Error ''write failed'')
   \<and> outbox (snd (broadcastToSSEClients ex_throws (schedule_deleted_msg ''s1'') ex_server)) 1
      = [schedule_deleted_msg ''s1'']
   \<and> outbox (snd (broadcastToSSEClients ex_throws (schedule_deleted_msg ''s1'') ex_server)) 2
      = []
   \<and> outbox (snd (broadcastToSSEClients ex_throws (schedule_deleted_msg ''s1'') ex_server)) 3
      = []"
proof -
  have h1: "sseClients ex_server = [1] @ 2 # [3]" by (simp add: ex_server_def)
  have h2: "distinct (sseClients ex_server)" by (simp add: ex_server_def)
  have h3: "\<forall>c \<in> set [1]. \<not> ex_throws c" by (simp add: ex_throws_def)
  have h4: "ex_throws 2" by (simp add: ex_throws_def)
  have ob: "outbox ex_server = (\<lambda>c. [])" by (simp add: ex_server_def)
  show ?thesis
    using broadcast_stops_at_throw [OF h1 h2 h3 h4, of "schedule_deleted_msg ''s1''"]
    by (simp add: ob)
qed

section \<open>Schedule mutations and their broadcast\<close>

lemma post_radio_schedule_resolved:
  assumes "distinct (sseClients s)" and "\<forall>c \<in> set (sseClients s). \<not> throws c"
    and "createRadioSchedule valid (db s) nid body = Inr (item, d')"
    and "getRadioAssetById d' (assetId item) = Some a"
  shows "post_radio_schedule throws valid nid body s =
           (Json item,
            s \<lparr> db := d',
                outbox := (\<lambda>c. if c \<in> set (sseClients s)
                                then outbox s c @ [schedule_update_msg item (Some a)]
                                else outbox s c) \<rparr>)"
proof -
  let ?s1 = "s \<lparr> db := d' \<rparr>"
  have "distinct (sseClients ?s1)" and "\<forall>c \<in> set (sseClients ?s1). \<not> throws c"
    using assms(1,2) by simp_all
  from broadcast_ok [OF this]
  show ?thesis
    by (simp add: post_radio_schedule_def assms(3,4) cong del: if_weak_cong)
qed

lemma post_radio_schedule_dangling:
  assumes "createRadioSchedule valid (db s) nid body = Inr (item, d')"
    and "getRadioAssetById d' (assetId item) = None"
  shows "post_radio_schedule throws valid nid body s = (Json item, s \<lparr> db := d' \<rparr>)"
  by (simp add: post_radio_schedule_def assms)

lemma patch_radio_schedule_ok:
  assumes "distinct (sseClients s)" and "\<forall>c \<in> set (sseClients s). \<not> throws c"
    and "updateRadioSchedule valid (db s) i u = Inr (item, d')"
  shows "patch_radio_schedule throws valid i u s =
           (Json item,
            s \<lparr> db := d',
                outbox := (\<lambda>c. if c \<in> set (sseClients s)
                                then outbox s c @ [schedule_update_msg item None]
                                else outbox s c) \<rparr>)"
proof -
  let ?s1 = "s \<lparr> db := d' \<rparr>"
  have "distinct (sseClients ?s1)" and "\<forall>c \<in> set (sseClients ?s1). \<not> throws c"
    using assms(1,2) by simp_all
  from broadcast_ok [OF this]
  show ?thesis
    by (simp add: patch_radio_schedule_def assms(3) cong del: if_weak_cong)
qed

lemma delete_radio_schedule_ok:
  assumes "distinct (sseClients s)" and "\<forall>c \<in> set (sseClients s). \<not> throws c"
  shows "delete_radio_schedule throws i s =
           (Json ''Schedule item deleted'',
            s \<lparr> db := deleteRadioSchedule (db s) i,
                outbox := (\<lambda>c. if c \<in> set (sseClients s)
                                then outbox s c @ [schedule_deleted_msg i]
                                else outbox s c) \<rparr>)"
proof -
  let ?s1 = "s \<lparr> db := deleteRadioSchedule (db s) i \<rparr>"
  have "distinct (sseClients ?s1)" and "\<forall>c \<in> set (sseClients ?s1). \<not> throws c"
    using assms(1,2) by simp_all
  from broadcast_ok [OF this]
  show ?thesis
    by (simp add: delete_radio_schedule_def cong del: if_weak_cong)
qed

lemma schedule_update_msg_fields:
  "p_type (schedule_update_msg item a) = Some ''schedule_update''"
  "p_scheduleItem (schedule_update_msg item a) = Some item"
  "p_asset (schedule_update_msg item a) = map_option asset_view a"
  by (simp_all add: schedule_update_msg_def empty_payload_def)

lemma ex_create:
  "createRadioSchedule ex_valid (db ex_server) ''s9'' ex_body =
     Inr (ex_created, ex_db \<lparr> radioSchedule := [ex_item, ex_created] \<rparr>)"
  by (simp add: createRadioSchedule_def Let_def ex_valid_def ex_server_def ex_body_def
      ex_created_def ex_db_def)

lemma ex_create_dangling:
  "createRadioSchedule ex_valid (db ex_server) ''s9'' ex_body_dangling =
     Inr (ex_created_dangling, ex_db \<lparr> radioSchedule := [ex_item, ex_created_dangling] \<rparr>)"
  by (simp add: createRadioSchedule_def Let_def ex_valid_def ex_server_def
      ex_body_dangling_def ex_created_dangling_def ex_db_def)

lemma ex_update:
  "updateRadioSchedule ex_valid (db ex_server) ''s1'' ex_patch =
     Inr (ex_patched, ex_db \<lparr> radioSchedule := [ex_patched] \<rparr>)"
  by (simp add: updateRadioSchedule_def no_values_def ex_valid_def ex_server_def ex_patch_def
      ex_patched_def ex_db_def ex_item_def apply_set_def first_row_def)

text \<open>An update that names no column is refused, and nothing is broadcast.\<close>

lemma updateRadioSchedule_no_values:
  "no_values u \<Longrightarrow> updateRadioSchedule valid d i u = Inl (Error ''No values to set'')"
  by (simp add: updateRadioSchedule_def)

lemma patch_radio_schedule_no_values:
  "no_values u \<Longrightarrow>
     patch_radio_schedule throws valid i u s = (Status 400 ''No values to set'', s)"
  by (simp add: patch_radio_schedule_def updateRadioSchedule_no_values)

lemma ex_patch_empty_refused:
  "patch_radio_schedule ex_quiet ex_valid ''s1'' ex_patch_empty ex_server
     = (Status 400 ''No values to set'', ex_server)"
  by (rule patch_radio_schedule_no_values) (simp add: no_values_def ex_patch_empty_def)

lemma ex_asset_lookup:
  "getRadioAssetById (ex_db \<lparr> radioSchedule := rows \<rparr>) ''a1'' = Some ex_asset"
  "getRadioAssetById (ex_db \<lparr> radioSchedule := rows \<rparr>) ''gone'' = None"
  by (simp_all add: getRadioAssetById_def first_row_def ex_db_def ex_asset_def)

text \<open>
  C6. Every successful schedule mutation is to be broadcast to all connected listeners.
  With three listeners on which no write throws, a create whose \<open>assetId\<close> does not
  resolve succeeds (the row is stored and the response is the new item) and nothing is
  written to any listener. The sibling paths do broadcast: the create with a resolving
  asset sends \<open>schedule_update\<close> with the item and the asset, the update sends
  \<open>schedule_update\<close> with the item (and no asset, although the item's asset resolves),
  the delete sends \<open>schedule_deleted\<close> with the identifier.
\<close>

theorem dangling_create_not_broadcast:
  "fst (post_radio_schedule ex_quiet ex_valid ''s9'' ex_body_dangling ex_server)
     = Json ex_created_dangling
   \<and> radioSchedule
        (db (snd (post_radio_schedule ex_quiet ex_valid ''s9'' ex_body_dangling ex_server)))
       = [ex_item, ex_created_dangling]
   \<and> sseClients ex_server = [1, 2, 3]
   \<and> outbox (snd (post_radio_schedule ex_quiet ex_valid ''s9'' ex_body_dangling ex_server)) 1
       = []
   \<and> outbox (snd (post_radio_schedule ex_quiet ex_valid ''s9'' ex_body_dangling ex_server)) 2
       = []
   \<and> outbox (snd (post_radio_schedule ex_quiet ex_valid ''s9'' ex_body_dangling ex_server)) 3
       = []
   \<and> outbox (snd (post_radio_schedule ex_quiet ex_valid ''s9'' ex_body ex_server)) 1
       = [schedule_update_msg ex_created (Some ex_asset)]
   \<and> getRadioAssetById ex_db (assetId ex_patched) = Some ex_asset
   \<and> outbox (snd (patch_radio_schedule ex_quiet ex_valid ''s1'' ex_patch ex_server)) 1
       = [schedule_update_msg ex_patched None]
   \<and> p_asset (schedule_update_msg ex_patched None) = None
   \<and> outbox (snd (delete_radio_schedule ex_quiet ''s1'' ex_server)) 1
       = [schedule_deleted_msg ''s1'']"
proof -
  have d: "distinct (sseClients ex_server)" by (simp add: ex_server_def)
  have q: "\<forall>c \<in> set (sseClients ex_server). \<not> ex_quiet c" by (simp add: ex_quiet_def)
  have a: "assetId ex_created_dangling = ''gone''" by (simp add: ex_created_dangling_def)
  have a': "assetId ex_created = ''a1''" by (simp add: ex_created_def)
  have p: "post_radio_schedule ex_quiet ex_valid ''s9'' ex_body_dangling ex_server =
             (Json ex_created_dangling,
              ex_server \<lparr> db := ex_db \<lparr> radioSchedule := [ex_item, ex_created_dangling] \<rparr> \<rparr>)"
    by (rule post_radio_schedule_dangling [OF ex_create_dangling])
       (simp add: a ex_asset_lookup)
  have r: "post_radio_schedule ex_quiet ex_valid ''s9'' ex_body ex_server =
             (Json ex_created,
              ex_server \<lparr> db := ex_db \<lparr> radioSchedule := [ex_item, ex_created] \<rparr>,
                outbox := (\<lambda>c. if c \<in> set (sseClients ex_server)
                                then outbox ex_server c
                                       @ [schedule_update_msg ex_created (Some ex_asset)]
                                else outbox ex_server c) \<rparr>)"
    by (rule post_radio_schedule_resolved [OF d q ex_create]) (simp add: a' ex_asset_lookup)
  have u: "patch_radio_schedule ex_quiet ex_valid ''s1'' ex_patch ex_server =
             (Json ex_patched,
              ex_server \<lparr> db := ex_db \<lparr> radioSchedule := [ex_patched] \<rparr>,
                outbox := (\<lambda>c. if c \<in> set (sseClients ex_server)
                                then outbox ex_server c @ [schedule_update_msg ex_patched None]
                                else outbox ex_server c) \<rparr>)"
    by (rule patch_radio_schedule_ok [OF d q ex_update])
  have x: "delete_radio_schedule ex_quiet ''s1'' ex_server =
             (Json ''Schedule item deleted'',
              ex_server \<lparr> db := deleteRadioSchedule (db ex_server) ''s1'',
                outbox := (\<lambda>c. if c \<in> set (sseClients ex_server)
                                then outbox ex_server c @ [schedule_deleted_msg ''s1'']
                                else outbox ex_server c) \<rparr>)"
    by (rule delete_radio_schedule_ok [OF d q])
  have g: "getRadioAssetById ex_db (assetId ex_patched) = Some ex_asset"
    by (simp add: getRadioAssetById_def first_row_def ex_db_def ex_asset_def ex_patched_def)
  show ?thesis
    by (simp add: p r u x g schedule_update_msg_fields) (simp add: ex_server_def)
qed

section \<open>The client\<close>

lemmas ex_msg_simps = ex_state_msg_def empty_payload_def ex_asset_def DEMO_STREAM_URL_def

lemmas client_simps = handleSSEMessage_def on_scheduled_def on_live_def on_deleted_def
  syncPlaybackPosition_def initAudio_def mount_def initial_client_def Let_def

text \<open>
  Drift correction as the closure of a render already \<open>SCHEDULED\<close> performs it: a snap
  to the clamped server position exactly when the divergence exceeds two seconds.
\<close>

lemma syncPlaybackPosition_snap:
  assumes "currentAsset st = Some asset" and "\<not> isLive st"
  shows "syncPlaybackPosition st (Some a) pos =
           Some (if \<bar>currentTime a - real_of_int (min pos (durationSeconds asset))\<bar> > 2
                 then a \<lparr> currentTime := real_of_int (min pos (durationSeconds asset)) \<rparr>
                 else a)"
  using assms by (simp add: syncPlaybackPosition_def Let_def)

text \<open>The closure of a render that is \<open>LIVE\<close>, or has no asset yet, never moves the position.\<close>

lemma syncPlaybackPosition_stale:
  "isLive st \<or> currentAsset st = None \<Longrightarrow> syncPlaybackPosition st ref pos = ref"
  by (auto simp: syncPlaybackPosition_def split: option.splits)

text \<open>
  C7. A client that has just mounted is \<open>LIVE\<close>. It receives the \<open>state\<close> message of a
  scheduled asset at position 175: it becomes \<open>SCHEDULED\<close>, loads the asset, and its
  playback position stays 0, 175 seconds from the server's, because the handler's
  \<open>syncPlaybackPosition\<close> still sees \<open>isLive = true\<close> and no asset. The same message
  handled once more, by the closure of the next render, does snap the position to 175.
\<close>

theorem first_scheduled_message_not_synced:
  "isLive (mount initial_client)
   \<and> p_positionSeconds ex_state_msg = Some 175
   \<and> isScheduled ex_client_scheduled
   \<and> \<not> isLive ex_client_scheduled
   \<and> audioRef ex_client_scheduled
       = Some \<lparr> src = Some (audioUrl ex_asset), currentTime = 0, paused = True,
                 audio_volume = 7 / 10, loads = 1 \<rparr>
   \<and> audioRef (handleSSEMessage ex_client_scheduled (Some ex_state_msg))
       = Some \<lparr> src = Some (audioUrl ex_asset), currentTime = 175, paused = True,
                 audio_volume = 7 / 10, loads = 1 \<rparr>"
  by (simp add: ex_client_scheduled_def client_simps ex_msg_simps)

text \<open>
  C8. While the client is \<open>SCHEDULED\<close> with a \<open>startedAt\<close> and a current asset, the
  position updater sets \<open>progress\<close> to
  \<open>min(floor((now - startedAt)/1000), durationSeconds)\<close>, which never exceeds the
  asset's duration.
\<close>

theorem updateProgress_clamped:
  assumes "isScheduled st" and "startedAt st = Some t0" and "currentAsset st = Some a"
  shows "progress (updateProgress st now)
           = real_of_int (min ((now - t0) div 1000) (durationSeconds a))
       \<and> progress (updateProgress st now) \<le> real_of_int (durationSeconds a)"
  using assms by (simp add: updateProgress_def Let_def)

text \<open>
  The asset of 180 seconds that started at \<open>T = 1000\<close>: one second after position 175 the
  updater reports 176, and long after the window has elapsed it reports 180.
\<close>

theorem updateProgress_clamped_witness:
  "progress (updateProgress ex_client_scheduled 177000) = 176
   \<and> progress (updateProgress ex_client_scheduled 999000) = 180"
proof -
  have h1: "isScheduled ex_client_scheduled"
    by (simp add: ex_client_scheduled_def client_simps ex_msg_simps)
  have h2: "startedAt ex_client_scheduled = Some 1000"
    by (simp add: ex_client_scheduled_def client_simps ex_msg_simps)
  have h3: "currentAsset ex_client_scheduled = Some ex_asset"
    by (simp add: ex_client_scheduled_def client_simps ex_msg_simps)
  have d: "durationSeconds ex_asset = 180" by (simp add: ex_asset_def)
  show ?thesis
    using updateProgress_clamped [OF h1 h2 h3, of 177000]
      updateProgress_clamped [OF h1 h2 h3, of 999000]
    by (simp add: d)
qed

text \<open>
  The element exists and carries the source the state names: true after mounting and
  kept by every message.
\<close>

lemma audio_loaded_mount: "audio_loaded (mount initial_client)"
  by (simp add: audio_loaded_def mount_def initAudio_def initial_client_def)

lemma audio_loaded_initAudio:
  "audio_loaded (st \<lparr> currentStreamUrl := url, audioRef := initAudio vol ref url \<rparr>)"
  by (cases ref) (simp_all add: audio_loaded_def initAudio_def Let_def)

lemma audio_loaded_sync:
  assumes "audio_loaded st"
  shows "audio_loaded (st \<lparr> audioRef := syncPlaybackPosition st0 (audioRef st) pos \<rparr>)"
  using assms
  by (auto simp: audio_loaded_def syncPlaybackPosition_def Let_def split: option.splits)

lemma audio_loaded_handleSSEMessage:
  assumes "audio_loaded st"
  shows "audio_loaded (handleSSEMessage st ev)"
proof -
  obtain a where a: "audioRef st = Some a" "src a = currentStreamUrl st"
    using assms by (cases "audioRef st") (simp_all add: audio_loaded_def)
  have live: "audio_loaded (on_live st)"
    using a by (simp add: on_live_def audio_loaded_def initAudio_def Let_def)
  have deleted: "audio_loaded (on_deleted st)"
    using a by (simp add: on_deleted_def audio_loaded_def initAudio_def Let_def)
  have scheduled: "audio_loaded (on_scheduled st data asset)" for data asset
    using a
    by (simp add: on_scheduled_def audio_loaded_def initAudio_def syncPlaybackPosition_def
        Let_def split: option.splits)
  show ?thesis
    using assms live deleted scheduled
    by (simp add: handleSSEMessage_def split: option.splits)
qed

lemma audio_loaded_controls:
  assumes "audio_loaded st"
  shows "audio_loaded (play st)" and "audio_loaded (pause st)"
    and "audio_loaded (seek st time)" and "audio_loaded (updateProgress st now)"
  using assms
  by (auto simp: audio_loaded_def play_def pause_def seek_def updateProgress_def Let_def
      split: option.splits)

lemma on_live_result:
  assumes "audioRef st = Some a" and "src a = currentStreamUrl st"
  shows "\<not> isScheduled (on_live st) \<and> isLive (on_live st)
       \<and> currentStreamUrl (on_live st) = Some DEMO_STREAM_URL
       \<and> loaded_src (on_live st) = Some DEMO_STREAM_URL
       \<and> load_count (on_live st)
           = (if src a = Some DEMO_STREAM_URL then loads a else loads a + 1)"
  using assms by (auto simp: on_live_def initAudio_def loaded_src_def load_count_def Let_def)

lemma on_deleted_result:
  assumes "audioRef st = Some a"
  shows "\<not> isScheduled (on_deleted st) \<and> isLive (on_deleted st)
       \<and> currentStreamUrl (on_deleted st) = Some DEMO_STREAM_URL
       \<and> loaded_src (on_deleted st) = Some DEMO_STREAM_URL
       \<and> load_count (on_deleted st) = loads a + 1"
  using assms by (simp add: on_deleted_def initAudio_def loaded_src_def load_count_def Let_def)

text \<open>
  C9. For every client state, \<open>SCHEDULED\<close> or \<open>LIVE\<close>, whose audio element carries the
  source the state names: after a \<open>schedule_deleted\<close> message, or a \<open>state\<close> or
  \<open>schedule_update\<close> message with \<open>isScheduled = false\<close>, \<open>isScheduled\<close> is false,
  \<open>isLive\<close> is true, the audio source is the default stream, and the element has been
  loaded again if a different source was loaded.
\<close>

theorem live_on_deleted_or_unscheduled:
  assumes "audio_loaded st"
    and "p_type data = Some ''schedule_deleted''
         \<or> (p_type data = Some ''state'' \<or> p_type data = Some ''schedule_update'')
            \<and> p_isScheduled data = Some False"
  shows "\<not> isScheduled (handleSSEMessage st (Some data))
       \<and> isLive (handleSSEMessage st (Some data))
       \<and> currentStreamUrl (handleSSEMessage st (Some data)) = Some DEMO_STREAM_URL
       \<and> loaded_src (handleSSEMessage st (Some data)) = Some DEMO_STREAM_URL
       \<and> (loaded_src st \<noteq> Some DEMO_STREAM_URL
            \<longrightarrow> load_count (handleSSEMessage st (Some data)) = load_count st + 1)"
proof -
  obtain a where a: "audioRef st = Some a" "src a = currentStreamUrl st"
    using assms(1) by (cases "audioRef st") (simp_all add: audio_loaded_def)
  have old: "loaded_src st = src a" "load_count st = loads a"
    using a(1) by (simp_all add: loaded_src_def load_count_def)
  from assms(2) consider
      (deleted) "p_type data = Some ''schedule_deleted''"
    | (unscheduled) "p_type data = Some ''state'' \<or> p_type data = Some ''schedule_update''"
        "p_isScheduled data = Some False"
    by blast
  then show ?thesis
  proof cases
    case deleted
    then have "handleSSEMessage st (Some data) = on_deleted st"
      by (simp add: handleSSEMessage_def)
    then show ?thesis using on_deleted_result [OF a(1)] old by simp
  next
    case unscheduled
    then have "handleSSEMessage st (Some data) = on_live st"
      by (simp add: handleSSEMessage_def)
    then show ?thesis using on_live_result [OF a] old by simp
  qed
qed

text \<open>
  The \<open>SCHEDULED\<close> example client receives \<open>schedule_deleted\<close>: it is \<open>LIVE\<close> on the
  default stream, loaded a second time.
\<close>

theorem live_on_deleted_or_unscheduled_witness:
  "isScheduled ex_client_scheduled
   \<and> \<not> isScheduled (handleSSEMessage ex_client_scheduled (Some (schedule_deleted_msg ''s1'')))
   \<and> isLive (handleSSEMessage ex_client_scheduled (Some (schedule_deleted_msg ''s1'')))
   \<and> loaded_src (handleSSEMessage ex_client_scheduled (Some (schedule_deleted_msg ''s1'')))
       = Some DEMO_STREAM_URL
   \<and> load_count (handleSSEMessage ex_client_scheduled (Some (schedule_deleted_msg ''s1'')))
       = 2"
proof -
  have h1: "audio_loaded ex_client_scheduled"
    unfolding ex_client_scheduled_def
    by (rule audio_loaded_handleSSEMessage [OF audio_loaded_mount])
  have h2: "p_type (schedule_deleted_msg ''s1'') = Some ''schedule_deleted''
            \<or> (p_type (schedule_deleted_msg ''s1'') = Some ''state''
                \<or> p_type (schedule_deleted_msg ''s1'') = Some ''schedule_update'')
               \<and> p_isScheduled (schedule_deleted_msg ''s1'') = Some False"
    by (simp add: schedule_deleted_msg_def empty_payload_def)
  have s: "isScheduled ex_client_scheduled"
    by (simp add: ex_client_scheduled_def client_simps ex_msg_simps)
  have r: "loaded_src ex_client_scheduled \<noteq> Some DEMO_STREAM_URL"
    by (simp add: loaded_src_def ex_client_scheduled_def client_simps ex_msg_simps)
  have l: "load_count ex_client_scheduled = 1"
    by (simp add: load_count_def ex_client_scheduled_def client_simps ex_msg_simps)
  show ?thesis
    using live_on_deleted_or_unscheduled [OF h1 h2] s r l by simp
qed

section \<open>Logout\<close>

lemma bearer_token: "bearer (Some (''Bearer '' @ t)) = Some t"
  by (simp add: bearer_def)

lemma auth_logout_state: "snd (auth_logout authorization s) = s"
  by (simp add: auth_logout_def deleteSession_def split: option.split)

text \<open>
  C10. \<open>deleteSession\<close> changes nothing, and so does the logout endpoint; a token that
  \<open>validateSession\<close> accepts at some moment is accepted at that moment also after the
  logout endpoint was called with it, by \<open>/api/auth/me\<close> and by \<open>requireAuth\<close>. So a
  token stays valid for as long as the verifier accepts it (24 hours from its issue).
\<close>

theorem deleteSession_noop:
  "deleteSession s t = s
   \<and> snd (auth_logout authorization s) = s
   \<and> (t \<noteq> [] \<and> validateSession jv secret now t = Some user
        \<longrightarrow> auth_me jv secret now (Some (''Bearer '' @ t))
              (snd (auth_logout (Some (''Bearer '' @ t)) s)) = Json user
          \<and> requireAuth jv secret now (Some (''Bearer '' @ t))
              (snd (auth_logout (Some (''Bearer '' @ t)) s)) = Json user)"
proof (intro conjI impI)
  show "deleteSession s t = s" by (simp add: deleteSession_def)
  show "snd (auth_logout authorization s) = s" by (rule auth_logout_state)
next
  assume h: "t \<noteq> [] \<and> validateSession jv secret now t = Some user"
  show "auth_me jv secret now (Some (''Bearer '' @ t))
          (snd (auth_logout (Some (''Bearer '' @ t)) s)) = Json user"
    unfolding auth_me_def bearer_token using h by simp
  show "requireAuth jv secret now (Some (''Bearer '' @ t))
          (snd (auth_logout (Some (''Bearer '' @ t)) s)) = Json user"
    unfolding requireAuth_def bearer_token using h by simp
qed

text \<open>One second before the example token expires, and after a logout, it is accepted.\<close>

theorem deleteSession_noop_witness:
  "validateSession ex_jwt ''k'' 86399 ''tok1'' = Some ''admin''
   \<and> auth_me ex_jwt ''k'' 86399 (Some (''Bearer '' @ ''tok1''))
        (snd (auth_logout (Some (''Bearer '' @ ''tok1'')) ex_server)) = Json ''admin''"
proof -
  have h1: "''tok1'' \<noteq> []" by simp
  have h2: "validateSession ex_jwt ''k'' 86399 ''tok1'' = Some ''admin''"
    by (simp add: validateSession_def verifyToken_def ex_jwt_def)
  show ?thesis
    using deleteSession_noop [of ex_server "''tok1''" None ex_jwt "''k''" 86399 "''admin''"]
      h1 h2
    by blast
qed

end
